theory Spec2Isabelle
  imports Complex_Main "HOL-Library.AList"
begin

section \<open>The account ledger of the mBoB banking application\<close>

text \<open>
  A shallow embedding of \<^verbatim>\<open>PassangDema_02240124_A3_PA.py\<close>: the class
  \<^verbatim>\<open>BankAccount\<close> with its four mutating methods, and the registry part of
  \<^verbatim>\<open>BankingApp\<close> (\<^verbatim>\<open>sign_up\<close>, \<^verbatim>\<open>login\<close>, \<^verbatim>\<open>logout\<close>).

  Python objects are mutable and compared by identity (\<^verbatim>\<open>BankAccount\<close> defines no
  \<^verbatim>\<open>__eq__\<close>), so accounts live in an explicit store: a reference is an address and
  the store maps each address to the object's fields. A method takes the store and
  returns the exception it raised, if any, together with the store as it is at
  that moment; a mutation made before a \<^verbatim>\<open>raise\<close> would therefore be visible.

  An amount is a Python number, and the methods work on both kinds the program
  sees. The unit tests pass integers, which are unbounded, hence \<^typ>\<open>int\<close>: these are
  the methods \<open>deposit\<close>, \<open>withdraw\<close>, \<open>transfer\<close> and \<open>mobile_topup\<close>. The window
  passes floats (\<^verbatim>\<open>askfloat\<close>), whose sums and differences are rounded: these are
  \<open>deposit_float\<close> and \<open>transfer_float\<close>, the same method bodies on the float
  operations. The class is therefore generic in the type of the balance.
\<close>

subsection \<open>Rendering an integer, as in an f-string\<close>

definition digit_char :: "nat \<Rightarrow> char" where
  "digit_char d = ''0123456789'' ! d"

function str_nat :: "nat \<Rightarrow> string" where
  "str_nat n = (if n < 10 then [digit_char n] else str_nat (n div 10) @ [digit_char (n mod 10)])"
  by pat_completeness auto
termination
  by (relation "measure (\<lambda>n. n)") auto

declare str_nat.simps [simp del]

definition str_int :: "int \<Rightarrow> string" where
  "str_int i = (if i < 0 then CHR ''-'' # str_nat (nat (- i)) else str_nat (nat i))"

subsection \<open>Python floats\<close>

text \<open>
  A Python float is an IEEE 754 double. A finite one is modelled by the rational
  number it denotes; the sign of a zero is not represented (it shows in no comparison
  and in no sum of this program). The result of an operation is its exact result
  rounded to the nearest double, a tie going to the even significand.

  \<open>ulp_exponent r\<close> is the exponent \<open>e\<close> of the last place of the doubles around
  \<open>r\<close>: the significand \<open>\<bar>r\<bar> / 2\<^sup>e\<close> lies between \<open>2\<^sup>5\<^sup>2\<close> and \<open>2\<^sup>5\<^sup>3\<close>, and \<open>e\<close> stops at
  \<open>-1074\<close>, where the subnormal numbers are.
\<close>

definition round_half_even :: "rat \<Rightarrow> int" where
  "round_half_even r =
     (let f = \<lfloor>r\<rfloor>; d = r - of_int f
      in if d < 1 / 2 then f else if 1 / 2 < d then f + 1 else if even f then f else f + 1)"

function exponent_down :: "rat \<Rightarrow> int \<Rightarrow> int" where
  "exponent_down m e = (if m < 2 ^ 52 \<and> - 1074 < e then exponent_down (2 * m) (e - 1) else e)"
  by pat_completeness auto
termination
  by (relation "measure (\<lambda>(m, e). nat (e + 1074))") auto

function exponent_up :: "rat \<Rightarrow> int \<Rightarrow> int" where
  "exponent_up m e = (if 2 ^ 53 \<le> m then exponent_up (m / 2) (e + 1) else e)"
  by pat_completeness auto
termination
proof (relation "measure (\<lambda>(m, e). nat \<lfloor>m\<rfloor>)")
  show "wf (measure (\<lambda>(m::rat, e::int). nat \<lfloor>m\<rfloor>))"
    by simp
next
  fix m :: rat and e :: int
  assume "2 ^ 53 \<le> m"
  then have two: "2 \<le> m"
    by (rule order_trans [rotated]) simp
  then have "m / 2 \<le> m - 1"
    by simp
  then have "\<lfloor>m / 2\<rfloor> \<le> \<lfloor>m - 1\<rfloor>"
    by (rule floor_mono)
  moreover from two have "0 < \<lfloor>m\<rfloor>"
    by linarith
  ultimately show "((m / 2, e + 1), (m, e)) \<in> measure (\<lambda>(m, e). nat \<lfloor>m\<rfloor>)"
    by simp
qed

declare exponent_down.simps [simp del] exponent_up.simps [simp del]

definition ulp_exponent :: "rat \<Rightarrow> int" where
  "ulp_exponent r = (if 2 ^ 53 \<le> \<bar>r\<bar> then exponent_up \<bar>r\<bar> 0 else exponent_down \<bar>r\<bar> 0)"

definition round_double :: "rat \<Rightarrow> rat" where
  "round_double r =
     (if r = 0 then 0
      else let q = 2 powi (ulp_exponent r) in of_int (round_half_even (r / q)) * q)"

datatype pyfloat = Finite rat | PosInf | NegInf | NaN

text \<open>
  The double for an exact value: what a float literal denotes and what an operation
  on finite operands returns. A rounded value of \<open>2\<^sup>1\<^sup>0\<^sup>2\<^sup>4\<close> or more overflows.
\<close>

definition to_double :: "rat \<Rightarrow> pyfloat" where
  "to_double r =
     (let y = round_double r
      in if 2 ^ 1024 \<le> y then PosInf else if y \<le> - (2 ^ 1024) then NegInf else Finite y)"

fun float_neg :: "pyfloat \<Rightarrow> pyfloat" where
  "float_neg (Finite a) = Finite (- a)"
| "float_neg PosInf = NegInf"
| "float_neg NegInf = PosInf"
| "float_neg NaN = NaN"

fun float_add :: "pyfloat \<Rightarrow> pyfloat \<Rightarrow> pyfloat" where
  "float_add NaN y = NaN"
| "float_add x NaN = NaN"
| "float_add PosInf NegInf = NaN"
| "float_add NegInf PosInf = NaN"
| "float_add PosInf y = PosInf"
| "float_add x PosInf = PosInf"
| "float_add NegInf y = NegInf"
| "float_add x NegInf = NegInf"
| "float_add (Finite a) (Finite b) = to_double (a + b)"

definition float_sub :: "pyfloat \<Rightarrow> pyfloat \<Rightarrow> pyfloat" where
  "float_sub x y = float_add x (float_neg y)"

text \<open>The comparisons \<^verbatim>\<open>x <= y\<close> and \<^verbatim>\<open>x > y\<close>; both are false when an operand is NaN.\<close>

fun float_le :: "pyfloat \<Rightarrow> pyfloat \<Rightarrow> bool" where
  "float_le NaN y = False"
| "float_le x NaN = False"
| "float_le NegInf y = True"
| "float_le x PosInf = True"
| "float_le (Finite a) (Finite b) = (a \<le> b)"
| "float_le x y = False"

fun float_gt :: "pyfloat \<Rightarrow> pyfloat \<Rightarrow> bool" where
  "float_gt NaN y = False"
| "float_gt x NaN = False"
| "float_gt x PosInf = False"
| "float_gt NegInf y = False"
| "float_gt PosInf y = True"
| "float_gt x NegInf = True"
| "float_gt (Finite a) (Finite b) = (b < a)"

subsection \<open>Exceptions and objects\<close>

datatype error = InvalidAmountError string | InsufficientFundsError string

record 'n BankAccount =
  acc_no :: string
  name :: string
  password :: string
  acc_type :: string
  balance :: 'n
  transactions :: "string list"

type_synonym addr = nat

type_synonym 'n store = "addr \<Rightarrow> 'n BankAccount"

type_synonym heap = "int store"

type_synonym float_heap = "pyfloat store"

text \<open>\<^verbatim>\<open>BankAccount.__init__\<close>: the fields of a new object.\<close>

definition BankAccount_init :: "string \<Rightarrow> string \<Rightarrow> string \<Rightarrow> string \<Rightarrow> 'n \<Rightarrow> 'n BankAccount" where
  "BankAccount_init no nm pw ty bal =
     \<lparr>acc_no = no, name = nm, password = pw, acc_type = ty, balance = bal, transactions = []\<rparr>"

text \<open>The two field assignments the methods make, each on the store as it is.\<close>

definition set_balance :: "addr \<Rightarrow> 'n \<Rightarrow> 'n store \<Rightarrow> 'n store" where
  "set_balance a b h = h(a := (h a)\<lparr>balance := b\<rparr>)"

definition append_transaction :: "addr \<Rightarrow> string \<Rightarrow> 'n store \<Rightarrow> 'n store" where
  "append_transaction a r h = h(a := (h a)\<lparr>transactions := transactions (h a) @ [r]\<rparr>)"

subsection \<open>The methods of \<^verbatim>\<open>BankAccount\<close>\<close>

definition deposit :: "addr \<Rightarrow> int \<Rightarrow> heap \<Rightarrow> error option \<times> heap" where
  "deposit self amount h =
     (if amount \<le> 0 then (Some (InvalidAmountError ''Amount must be positive''), h)
      else
        let h1 = set_balance self (balance (h self) + amount) h;
            h2 = append_transaction self (''Deposited Nu.'' @ str_int amount) h1
        in (None, h2))"

definition withdraw :: "addr \<Rightarrow> int \<Rightarrow> heap \<Rightarrow> error option \<times> heap" where
  "withdraw self amount h =
     (if amount \<le> 0 then (Some (InvalidAmountError ''Amount must be positive''), h)
      else if amount > balance (h self) then (Some (InsufficientFundsError ''Not enough balance''), h)
      else
        let h1 = set_balance self (balance (h self) - amount) h;
            h2 = append_transaction self (''Withdrew Nu.'' @ str_int amount) h1
        in (None, h2))"

definition transfer :: "addr \<Rightarrow> int \<Rightarrow> addr \<Rightarrow> heap \<Rightarrow> error option \<times> heap" where
  "transfer self amount target h =
     (if amount \<le> 0 then (Some (InvalidAmountError ''Amount must be positive''), h)
      else if amount > balance (h self) then (Some (InsufficientFundsError ''Not enough balance''), h)
      else if target = self then (Some (InvalidAmountError ''Cannot transfer to same account''), h)
      else
        let h1 = set_balance self (balance (h self) - amount) h;
            h2 = set_balance target (balance (h1 target) + amount) h1;
            h3 = append_transaction self
                   (''Sent Nu.'' @ str_int amount @ '' to '' @ name (h2 target)
                      @ '' (Acc: '' @ acc_no (h2 target) @ '')'') h2;
            h4 = append_transaction target
                   (''Received Nu.'' @ str_int amount @ '' from '' @ name (h3 self)
                      @ '' (Acc: '' @ acc_no (h3 self) @ '')'') h3
        in (None, h4))"

definition mobile_topup :: "addr \<Rightarrow> int \<Rightarrow> string \<Rightarrow> heap \<Rightarrow> error option \<times> heap" where
  "mobile_topup self amount number h =
     (if amount \<le> 0 then (Some (InvalidAmountError ''Amount must be positive''), h)
      else if amount > balance (h self) then (Some (InsufficientFundsError ''Not enough balance''), h)
      else
        let h1 = set_balance self (balance (h self) - amount) h;
            h2 = append_transaction self (''Mobile top-up Nu.'' @ str_int amount @ '' to '' @ number) h1
        in (None, h2))"

definition get_transactions :: "addr \<Rightarrow> heap \<Rightarrow> string list" where
  "get_transactions self h = transactions (h self)"

subsection \<open>The methods on float amounts\<close>

text \<open>
  The bodies of \<^verbatim>\<open>deposit\<close> and \<^verbatim>\<open>transfer\<close> again, for a float amount and float
  balances: the comparisons, the sum and the difference are those of floats. The
  text that an f-string gives a float (Python's \<^verbatim>\<open>repr\<close>) belongs to Python's library
  and is the parameter \<open>format_float\<close>.
\<close>

definition deposit_float ::
  "(pyfloat \<Rightarrow> string) \<Rightarrow> addr \<Rightarrow> pyfloat \<Rightarrow> float_heap \<Rightarrow> error option \<times> float_heap" where
  "deposit_float format_float self amount h =
     (if float_le amount (Finite 0) then (Some (InvalidAmountError ''Amount must be positive''), h)
      else
        let h1 = set_balance self (float_add (balance (h self)) amount) h;
            h2 = append_transaction self (''Deposited Nu.'' @ format_float amount) h1
        in (None, h2))"

definition transfer_float ::
  "(pyfloat \<Rightarrow> string) \<Rightarrow> addr \<Rightarrow> pyfloat \<Rightarrow> addr \<Rightarrow> float_heap \<Rightarrow> error option \<times> float_heap" where
  "transfer_float format_float self amount target h =
     (if float_le amount (Finite 0) then (Some (InvalidAmountError ''Amount must be positive''), h)
      else if float_gt amount (balance (h self))
        then (Some (InsufficientFundsError ''Not enough balance''), h)
      else if target = self then (Some (InvalidAmountError ''Cannot transfer to same account''), h)
      else
        let h1 = set_balance self (float_sub (balance (h self)) amount) h;
            h2 = set_balance target (float_add (balance (h1 target)) amount) h1;
            h3 = append_transaction self
                   (''Sent Nu.'' @ format_float amount @ '' to '' @ name (h2 target)
                      @ '' (Acc: '' @ acc_no (h2 target) @ '')'') h2;
            h4 = append_transaction target
                   (''Received Nu.'' @ format_float amount @ '' from '' @ name (h3 self)
                      @ '' (Acc: '' @ acc_no (h3 self) @ '')'') h3
        in (None, h4))"

subsection \<open>A client: a sequence of method calls\<close>

text \<open>
  The callers of the ledger (the unit tests, the handlers of the window) make one
  method call after the other. \<open>run_accepted\<close> runs such a sequence and yields the
  final store when every call returned normally, \<open>None\<close> as soon as one raised.
\<close>

datatype operation =
    Deposit addr int
  | Withdraw addr int
  | Transfer addr int addr
  | MobileTopup addr int string

fun apply_operation :: "operation \<Rightarrow> heap \<Rightarrow> error option \<times> heap" where
  "apply_operation (Deposit self amount) h = deposit self amount h"
| "apply_operation (Withdraw self amount) h = withdraw self amount h"
| "apply_operation (Transfer self amount target) h = transfer self amount target h"
| "apply_operation (MobileTopup self amount number) h = mobile_topup self amount number h"


subsection \<open>The registry and the session of \<^verbatim>\<open>BankingApp\<close>\<close>

text \<open>
  \<open>accounts\<close> is the dictionary from account number to account object (an
  association list in insertion order, as a Python dict keeps it) and \<open>current\<close> the
  logged-in account. The object store is carried in the same record: \<open>objects\<close>
  holds the fields of every object and \<open>allocated\<close> counts the objects created so
  far, which is also the address of the next one. The dialogs are inputs: a prompt
  answers \<open>None\<close> when it is cancelled. A message box is the handler's output.
\<close>

datatype dialog = showerror string string | showinfo string string

record BankingApp =
  objects :: heap
  allocated :: nat
  accounts :: "(string \<times> addr) list"
  current :: "addr option"

text \<open>The store before any account exists: no address is referenced yet.\<close>

definition heap0 :: heap where
  "heap0 = (\<lambda>a. BankAccount_init [] [] [] [] 0)"

definition BankingApp_init :: BankingApp where
  "BankingApp_init = \<lparr>objects = heap0, allocated = 0, accounts = [], current = None\<rparr>"

text \<open>
  \<^verbatim>\<open>sign_up\<close>. The string methods \<^verbatim>\<open>str.lower\<close> and \<^verbatim>\<open>str.capitalize\<close> belong to
  Python's library and are parameters here.
\<close>

definition sign_up ::
  "(string \<Rightarrow> string) \<Rightarrow> (string \<Rightarrow> string) \<Rightarrow> BankingApp \<Rightarrow> string option \<Rightarrow> string option
     \<Rightarrow> string option \<Rightarrow> string option \<Rightarrow> int option \<Rightarrow> dialog option \<times> BankingApp" where
  "sign_up lower capitalize app acc_no_in name_in acc_type_in password_in bal_in =
     (case acc_no_in of
        None \<Rightarrow> (None, app)
      | Some no \<Rightarrow>
          if no = [] then (None, app)
          else if map_of (accounts app) no \<noteq> None
            then (Some (showerror ''Error'' ''Account number already exists''), app)
          else
            (case name_in of
               None \<Rightarrow> (None, app)
             | Some nm \<Rightarrow>
                 if nm = [] then (None, app)
                 else if (case acc_type_in of
                            None \<Rightarrow> True
                          | Some ty \<Rightarrow> ty = [] \<or> lower ty \<notin> set [''personal'', ''business''])
                   then (Some (showerror ''Error''
                           ''Invalid account type. Please enter Personal or Business.''), app)
                 else
                   (case (acc_type_in, password_in) of
                      (Some ty, Some pw) \<Rightarrow>
                        if pw = [] then (None, app)
                        else
                          (case bal_in of
                             None \<Rightarrow> (None, app)
                           | Some bal \<Rightarrow>
                               let a = allocated app
                               in (Some (showinfo ''Success''
                                     (capitalize ty @ '' account created for '' @ nm
                                        @ [CHR 0x0A] @ ''Acc No: '' @ no)),
                                   app\<lparr>objects := (objects app)
                                          (a := BankAccount_init no nm pw (capitalize ty) bal),
                                       allocated := Suc a,
                                       accounts := AList.update no a (accounts app)\<rparr>))
                    | _ \<Rightarrow> (None, app))))"

text \<open>
  \<^verbatim>\<open>login\<close>. After the welcome message the handler draws the dashboard, which
  reads the session and changes nothing of the ledger.
\<close>

definition login :: "BankingApp \<Rightarrow> string option \<Rightarrow> string option \<Rightarrow> dialog \<times> BankingApp" where
  "login app acc_no_in password_in =
     (if accounts app = [] then (showerror ''Error'' ''No accounts available'', app)
      else
        (case acc_no_in of
           None \<Rightarrow> (showerror ''Error'' ''Account not found'', app)
         | Some no \<Rightarrow>
             if no = [] then (showerror ''Error'' ''Account not found'', app)
             else
               (case map_of (accounts app) no of
                  None \<Rightarrow> (showerror ''Error'' ''Account not found'', app)
                | Some a \<Rightarrow>
                    if password_in \<noteq> Some (password (objects app a))
                      then (showerror ''Error'' ''Incorrect password'', app)
                    else
                      let app1 = app\<lparr>current := Some a\<rparr>
                      in (showinfo ''Success'' (''Welcome '' @ name (objects app1 a) @ ''!''),
                          app1))))"

definition logout :: "BankingApp \<Rightarrow> BankingApp" where
  "logout app = app\<lparr>current := None\<rparr>"

text \<open>Every account number of the registry is a non-empty string.\<close>

definition registry_ok :: "BankingApp \<Rightarrow> bool" where
  "registry_ok app = ([] \<notin> fst ` set (accounts app))"

subsection \<open>The accounts of the unit tests\<close>

text \<open>
  Two accounts, Alice's at address 0 and Bob's at address 1, as the scenario of the
  specification creates them, and a registry that holds both.
\<close>

definition scenario :: heap where
  "scenario = heap0
     (0 := BankAccount_init ''001'' ''Alice'' ''p1'' ''Personal'' 1000,
      1 := BankAccount_init ''002'' ''Bob'' ''p2'' ''Business'' 500)"

definition scenario_app :: BankingApp where
  "scenario_app =
     \<lparr>objects = scenario, allocated = 2, accounts = [(''001'', 0), (''002'', 1)], current = None\<rparr>"

text \<open>Two distinct objects that carry the same account number.\<close>

definition twins :: heap where
  "twins = heap0
     (0 := BankAccount_init ''001'' ''Alice'' ''p1'' ''Personal'' 1000,
      1 := BankAccount_init ''001'' ''Bob'' ''p2'' ''Business'' 500)"

text \<open>
  Accounts opened through the window hold floats. In \<open>float_scenario\<close> Alice's
  account holds 0.3 and Bob's 0.7; in \<open>float_saver\<close> Alice's holds 0.1.
\<close>

definition float_heap0 :: float_heap where
  "float_heap0 = (\<lambda>a. BankAccount_init [] [] [] [] (Finite 0))"

definition float_scenario :: float_heap where
  "float_scenario = float_heap0
     (0 := BankAccount_init ''001'' ''Alice'' ''p1'' ''Personal'' (to_double (3 / 10)),
      1 := BankAccount_init ''002'' ''Bob'' ''p2'' ''Business'' (to_double (7 / 10)))"

definition float_saver :: float_heap where
  "float_saver = float_heap0
     (0 := BankAccount_init ''001'' ''Alice'' ''p1'' ''Personal'' (to_double (1 / 10)))"

section \<open>Properties\<close>

subsection \<open>Shared facts about the store\<close>

lemma set_balance_apply:
  "set_balance a b h c = (if c = a then (h a)\<lparr>balance := b\<rparr> else h c)"
  by (simp add: set_balance_def)

lemma append_transaction_apply:
  "append_transaction a r h c =
     (if c = a then (h a)\<lparr>transactions := transactions (h a) @ [r]\<rparr> else h c)"
  by (simp add: append_transaction_def)

lemmas store_simps = set_balance_apply append_transaction_apply Let_def

lemma scenario_apply:
  "scenario 0 = BankAccount_init ''001'' ''Alice'' ''p1'' ''Personal'' 1000"
  "scenario (Suc 0) = BankAccount_init ''002'' ''Bob'' ''p2'' ''Business'' 500"
  by (simp_all add: scenario_def)

lemma str_int_200: "str_int 200 = ''200''"
  by (simp add: str_int_def str_nat.simps digit_char_def)

subsection \<open>Evaluating float operations\<close>

lemma floor_numeral_fraction:
  "\<lfloor>numeral a / numeral b :: rat\<rfloor> = numeral a div numeral b"
  using floor_divide_of_int_eq [of "numeral a" "numeral b", where ?'a = rat] by simp

lemmas round_eval =
  round_double_def ulp_exponent_def exponent_down.simps exponent_up.simps power_int_minus
  round_half_even_def floor_numeral_fraction

lemma to_double_finite:
  "\<bar>round_double r\<bar> < 2 ^ 1024 \<Longrightarrow> to_double r = Finite (round_double r)"
  by (auto simp: to_double_def Let_def)

lemma double_literals:
  "to_double (1 / 10) = Finite (3602879701896397 / 36028797018963968)"
  "to_double (3 / 10) = Finite (5404319552844595 / 18014398509481984)"
  "to_double (7 / 10) = Finite (3152519739159347 / 4503599627370496)"
  "to_double (11 / 10) = Finite (2476979795053773 / 2251799813685248)"
  by (simp_all add: to_double_finite round_eval Let_def)

lemma float_gt_not_le: "float_gt y (Finite 0) \<Longrightarrow> \<not> float_le y (Finite 0)"
  by (cases y) simp_all

lemma float_le_not_gt: "float_le y b \<Longrightarrow> \<not> float_gt y b"
  by (cases y; cases b) simp_all

lemma float_scenario_apply:
  "float_scenario 0 = BankAccount_init ''001'' ''Alice'' ''p1'' ''Personal'' (to_double (3 / 10))"
  "float_scenario (Suc 0) = BankAccount_init ''002'' ''Bob'' ''p2'' ''Business'' (to_double (7 / 10))"
  by (simp_all add: float_scenario_def)

lemma float_saver_apply:
  "float_saver 0 = BankAccount_init ''001'' ''Alice'' ''p1'' ''Personal'' (to_double (1 / 10))"
  by (simp add: float_saver_def)

subsection \<open>Transfers\<close>

text \<open>
  Alice's account holds 0.3 and Bob's 0.7, and Alice transfers 0.1; all three are
  floats, as the window passes them. The transfer is accepted, but Bob's balance
  becomes 0.7999999999999999, which is less than the exact sum of his 0.7 and the
  0.1, and the sum of the two balances, which Python computes as 1.0 before the
  transfer, is 0.9999999999999999 after it. This holds whatever text the f-strings
  give the amount.
\<close>

theorem transfer_float_not_exact:
  "\<forall>format_float.
     fst (transfer_float format_float 0 (to_double (1 / 10)) 1 float_scenario) = None
   \<and> balance (float_scenario 1) = Finite (3152519739159347 / 4503599627370496)
   \<and> to_double (1 / 10) = Finite (3602879701896397 / 36028797018963968)
   \<and> balance (snd (transfer_float format_float 0 (to_double (1 / 10)) 1 float_scenario) 1)
       = Finite (7205759403792793 / 9007199254740992)
   \<and> (7205759403792793 / 9007199254740992 :: rat)
       < 3152519739159347 / 4503599627370496 + 3602879701896397 / 36028797018963968
   \<and> float_add (balance (float_scenario 0)) (balance (float_scenario 1)) = Finite 1
   \<and> float_add (balance (snd (transfer_float format_float 0 (to_double (1 / 10)) 1 float_scenario) 0))
                (balance (snd (transfer_float format_float 0 (to_double (1 / 10)) 1 float_scenario) 1))
       = Finite (9007199254740991 / 9007199254740992)"
  by (simp add: transfer_float_def store_simps float_scenario_apply BankAccount_init_def
                double_literals float_sub_def to_double_finite round_eval)

text \<open>
  C1, as the code has it. A transfer of a positive amount \<open>x\<close> from account \<open>A\<close> to a
  distinct account \<open>B\<close>, with \<open>x\<close> at most the balance of \<open>A\<close>, returns normally. When
  the amount and the balances are integers, the balance of \<open>A\<close> goes down by exactly
  \<open>x\<close>, the balance of \<open>B\<close> goes up by exactly \<open>x\<close>, and the sum of the two balances is
  what it was. When they are floats, the balance of \<open>A\<close> becomes the float difference
  of its old balance and \<open>x\<close>, and the balance of \<open>B\<close> the float sum of its old balance
  and \<open>x\<close>: both are rounded.
\<close>

theorem transfer_conservation:
  "(0 < x \<and> x \<le> balance (h A) \<and> A \<noteq> B \<longrightarrow>
      fst (transfer A x B h) = None
      \<and> balance (snd (transfer A x B h) A) = balance (h A) - x
      \<and> balance (snd (transfer A x B h) B) = balance (h B) + x
      \<and> balance (snd (transfer A x B h) A) + balance (snd (transfer A x B h) B)
          = balance (h A) + balance (h B))
   \<and> (float_gt y (Finite 0) \<and> float_le y (balance (g A)) \<and> A \<noteq> B \<longrightarrow>
      fst (transfer_float format_float A y B g) = None
      \<and> balance (snd (transfer_float format_float A y B g) A) = float_sub (balance (g A)) y
      \<and> balance (snd (transfer_float format_float A y B g) B) = float_add (balance (g B)) y)"
  by (simp add: transfer_def transfer_float_def store_simps float_gt_not_le float_le_not_gt)

theorem transfer_conservation_witness:
  "\<forall>format_float.
     (0::int) < 200 \<and> 200 \<le> balance (scenario 0) \<and> (0::addr) \<noteq> 1
   \<and> fst (transfer 0 200 1 scenario) = None
   \<and> balance (snd (transfer 0 200 1 scenario) 0) = 800
   \<and> balance (snd (transfer 0 200 1 scenario) 1) = 700
   \<and> float_gt (to_double (1 / 10)) (Finite 0)
   \<and> float_le (to_double (1 / 10)) (balance (float_scenario 0))
   \<and> fst (transfer_float format_float 0 (to_double (1 / 10)) 1 float_scenario) = None
   \<and> balance (snd (transfer_float format_float 0 (to_double (1 / 10)) 1 float_scenario) 0)
       = Finite (7205759403792793 / 36028797018963968)
   \<and> balance (snd (transfer_float format_float 0 (to_double (1 / 10)) 1 float_scenario) 1)
       = Finite (7205759403792793 / 9007199254740992)"
proof
  fix format_float :: "pyfloat \<Rightarrow> string"
  from transfer_conservation
         [of 200 scenario 0 1 "to_double (1 / 10)" float_scenario format_float]
  show "(0::int) < 200 \<and> 200 \<le> balance (scenario 0) \<and> (0::addr) \<noteq> 1
   \<and> fst (transfer 0 200 1 scenario) = None
   \<and> balance (snd (transfer 0 200 1 scenario) 0) = 800
   \<and> balance (snd (transfer 0 200 1 scenario) 1) = 700
   \<and> float_gt (to_double (1 / 10)) (Finite 0)
   \<and> float_le (to_double (1 / 10)) (balance (float_scenario 0))
   \<and> fst (transfer_float format_float 0 (to_double (1 / 10)) 1 float_scenario) = None
   \<and> balance (snd (transfer_float format_float 0 (to_double (1 / 10)) 1 float_scenario) 0)
       = Finite (7205759403792793 / 36028797018963968)
   \<and> balance (snd (transfer_float format_float 0 (to_double (1 / 10)) 1 float_scenario) 1)
       = Finite (7205759403792793 / 9007199254740992)"
    by (simp add: scenario_apply float_scenario_apply BankAccount_init_def double_literals
                  float_sub_def to_double_finite round_eval)
qed

subsection \<open>The balance invariant\<close>




subsection \<open>Failed calls\<close>

text \<open>
  C3. Whenever a deposit, a withdrawal, a transfer or a top-up raises, the store
  it leaves is the store it was given: the balance and the history of the caller,
  of the target of a transfer and of every other account are untouched. The calls
  raise in particular when the amount is zero or negative, when the amount exceeds
  the caller's balance (withdrawal, transfer, top-up) and when the target of a
  transfer is the caller.
\<close>

theorem failed_operation_no_mutation:
  "(fst (deposit A x h) \<noteq> None \<longrightarrow> snd (deposit A x h) = h)
   \<and> (fst (withdraw A x h) \<noteq> None \<longrightarrow> snd (withdraw A x h) = h)
   \<and> (fst (transfer A x B h) \<noteq> None \<longrightarrow> snd (transfer A x B h) = h)
   \<and> (fst (mobile_topup A x n h) \<noteq> None \<longrightarrow> snd (mobile_topup A x n h) = h)
   \<and> (x \<le> 0 \<longrightarrow> fst (deposit A x h) \<noteq> None)
   \<and> (x \<le> 0 \<or> balance (h A) < x \<longrightarrow> fst (withdraw A x h) \<noteq> None)
   \<and> (x \<le> 0 \<or> balance (h A) < x \<or> B = A \<longrightarrow> fst (transfer A x B h) \<noteq> None)
   \<and> (x \<le> 0 \<or> balance (h A) < x \<longrightarrow> fst (mobile_topup A x n h) \<noteq> None)"
  by (simp add: deposit_def withdraw_def transfer_def mobile_topup_def Let_def)

theorem failed_operation_no_mutation_witness:
  "fst (deposit 0 (- 100) scenario) \<noteq> None \<and> snd (deposit 0 (- 100) scenario) = scenario
   \<and> fst (withdraw 1 1000 scenario) \<noteq> None \<and> snd (withdraw 1 1000 scenario) = scenario
   \<and> fst (transfer 0 100 0 scenario) \<noteq> None \<and> snd (transfer 0 100 0 scenario) = scenario
   \<and> fst (mobile_topup 1 600 ''17123456'' scenario) \<noteq> None
   \<and> snd (mobile_topup 1 600 ''17123456'' scenario) = scenario"
  using failed_operation_no_mutation [of 0 "- 100" scenario 1 "''17123456''"]
        failed_operation_no_mutation [of 1 1000 scenario 0 "''17123456''"]
        failed_operation_no_mutation [of 0 100 scenario 0 "''17123456''"]
        failed_operation_no_mutation [of 1 600 scenario 0 "''17123456''"]
  by (simp add: scenario_apply BankAccount_init_def)

subsection \<open>Transfers to the same account\<close>

text \<open>
  The guards of \<^verbatim>\<open>transfer\<close> are tried in the order amount, funds, target. A
  transfer of 2000 from Alice's account, which holds 1000, to itself is therefore
  rejected for insufficient funds.
\<close>

theorem self_transfer_insufficient_funds:
  "fst (transfer 0 2000 0 scenario) = Some (InsufficientFundsError ''Not enough balance'')"
  by (simp add: transfer_def scenario_apply BankAccount_init_def)

text \<open>
  C4, as the code has it. A transfer whose target is the caller always raises and
  leaves the store as it was. The exception is \<^verbatim>\<open>InvalidAmountError\<close> when the amount
  is zero or negative and when the amount is positive and within the balance; it is
  \<^verbatim>\<open>InsufficientFundsError\<close> when the amount exceeds the balance.
\<close>

theorem self_transfer_rejected:
  "transfer A x A h =
     (Some (if x \<le> 0 then InvalidAmountError ''Amount must be positive''
            else if balance (h A) < x then InsufficientFundsError ''Not enough balance''
            else InvalidAmountError ''Cannot transfer to same account''), h)"
  by (simp add: transfer_def)

theorem self_transfer_rejected_witness:
  "transfer 0 100 0 scenario = (Some (InvalidAmountError ''Cannot transfer to same account''), scenario)
   \<and> transfer 0 2000 0 scenario = (Some (InsufficientFundsError ''Not enough balance''), scenario)
   \<and> transfer 0 (- 5) 0 scenario = (Some (InvalidAmountError ''Amount must be positive''), scenario)"
  using self_transfer_rejected [of 0 100 scenario] self_transfer_rejected [of 0 2000 scenario]
        self_transfer_rejected [of 0 "- 5" scenario]
  by (simp add: scenario_apply BankAccount_init_def)

subsection \<open>The history\<close>

text \<open>
  C5. A deposit, a withdrawal or a top-up that returns normally appends exactly one
  record to the caller's history and leaves every other history alone. A transfer
  that returns normally appends exactly one record to the sender's history and one
  to the receiver's, and leaves every other history alone. Whatever the call and
  whether it raises or not, the history of each account afterwards starts with the
  history it had before: nothing is removed or reordered.
\<close>

theorem history_append_only:
  "(fst (deposit A x h) = None \<longrightarrow>
      transactions (snd (deposit A x h) A) = transactions (h A) @ [''Deposited Nu.'' @ str_int x]
      \<and> (\<forall>c. c \<noteq> A \<longrightarrow> transactions (snd (deposit A x h) c) = transactions (h c)))
   \<and> (fst (withdraw A x h) = None \<longrightarrow>
      transactions (snd (withdraw A x h) A) = transactions (h A) @ [''Withdrew Nu.'' @ str_int x]
      \<and> (\<forall>c. c \<noteq> A \<longrightarrow> transactions (snd (withdraw A x h) c) = transactions (h c)))
   \<and> (fst (mobile_topup A x n h) = None \<longrightarrow>
      transactions (snd (mobile_topup A x n h) A)
        = transactions (h A) @ [''Mobile top-up Nu.'' @ str_int x @ '' to '' @ n]
      \<and> (\<forall>c. c \<noteq> A \<longrightarrow> transactions (snd (mobile_topup A x n h) c) = transactions (h c)))
   \<and> (fst (transfer A x B h) = None \<longrightarrow>
      transactions (snd (transfer A x B h) A)
        = transactions (h A) @ [''Sent Nu.'' @ str_int x @ '' to '' @ name (h B)
                                  @ '' (Acc: '' @ acc_no (h B) @ '')'']
      \<and> transactions (snd (transfer A x B h) B)
        = transactions (h B) @ [''Received Nu.'' @ str_int x @ '' from '' @ name (h A)
                                  @ '' (Acc: '' @ acc_no (h A) @ '')'']
      \<and> (\<forall>c. c \<noteq> A \<and> c \<noteq> B \<longrightarrow> transactions (snd (transfer A x B h) c) = transactions (h c)))
   \<and> (\<forall>c. \<exists>rs. transactions (snd (apply_operation call h) c) = transactions (h c) @ rs)"
proof -
  have "\<exists>rs. transactions (snd (apply_operation call h) c) = transactions (h c) @ rs" for c
    by (cases call)
       (simp_all add: deposit_def withdraw_def transfer_def mobile_topup_def store_simps)
  then show ?thesis
    by (simp add: deposit_def withdraw_def transfer_def mobile_topup_def store_simps)
qed

theorem history_append_only_witness:
  "fst (deposit 0 200 scenario) = None
   \<and> transactions (snd (deposit 0 200 scenario) 0) = [''Deposited Nu.200'']
   \<and> fst (transfer 0 200 1 scenario) = None
   \<and> transactions (snd (transfer 0 200 1 scenario) 0)
       = transactions (scenario 0) @ [''Sent Nu.200 to Bob (Acc: 002)'']
   \<and> transactions (snd (transfer 0 200 1 scenario) 1)
       = transactions (scenario 1) @ [''Received Nu.200 from Alice (Acc: 001)'']
   \<and> transactions (snd (transfer 0 200 1 scenario) 2) = transactions (scenario 2)"
proof -
  have accepted: "fst (deposit 0 200 scenario) = None" "fst (transfer 0 200 1 scenario) = None"
    by (simp_all add: deposit_def transfer_def Let_def scenario_apply BankAccount_init_def)
  have other: "(2::addr) \<noteq> 0 \<and> (2::addr) \<noteq> 1"
    by simp
  from history_append_only [where A = 0 and x = 200 and h = scenario and B = 1
                              and n = "''17123456''" and call = "Transfer 0 200 1"]
       accepted other
  show ?thesis
    by (auto simp: scenario_apply BankAccount_init_def str_int_200)
qed

subsection \<open>The scenario of the specification\<close>

lemma str_int_100: "str_int 100 = ''100''"
  by (simp add: str_int_def str_nat.simps digit_char_def)

text \<open>
  The records that \<^verbatim>\<open>transfer\<close> writes carry the currency prefix \<^verbatim>\<open>Nu.\<close> before the
  amount, so the two records without the prefix are in neither history.
\<close>

theorem scenario_records_without_prefix_absent:
  "''Sent 200 to Bob (Acc: 002)'' \<notin> set (get_transactions 0 (snd (transfer 0 200 1 scenario)))
   \<and> ''Received 200 from Alice (Acc: 001)'' \<notin> set (get_transactions 1 (snd (transfer 0 200 1 scenario)))"
  by (simp add: get_transactions_def transfer_def store_simps scenario_apply BankAccount_init_def
                str_int_200)

text \<open>
  C6, as the code has it. With Alice's account ("001", opening balance 1000) and
  Bob's ("002", opening balance 500), the transfer of 200 from Alice to Bob returns
  normally, the balances become 800 and 700, Alice's history is the single record
  "Sent Nu.200 to Bob (Acc: 002)" and Bob's is the single record
  "Received Nu.200 from Alice (Acc: 001)".
\<close>

theorem scenario_transfer:
  "fst (transfer 0 200 1 scenario) = None
   \<and> balance (snd (transfer 0 200 1 scenario) 0) = 800
   \<and> balance (snd (transfer 0 200 1 scenario) 1) = 700
   \<and> get_transactions 0 (snd (transfer 0 200 1 scenario)) = [''Sent Nu.200 to Bob (Acc: 002)'']
   \<and> get_transactions 1 (snd (transfer 0 200 1 scenario)) = [''Received Nu.200 from Alice (Acc: 001)'']"
  by (simp add: get_transactions_def transfer_def store_simps scenario_apply BankAccount_init_def
                str_int_200)

subsection \<open>Login\<close>

text \<open>
  \<^verbatim>\<open>sign_up\<close> returns early on an empty account number, so the registry never holds
  one; \<^verbatim>\<open>login\<close> and \<^verbatim>\<open>logout\<close> leave the registry alone.
\<close>

lemma registry_ok_init: "registry_ok BankingApp_init"
  by (simp add: registry_ok_def BankingApp_init_def)

lemma registry_ok_sign_up:
  "registry_ok app \<Longrightarrow> registry_ok (snd (sign_up lower capitalize app n nm ty pw bal))"
  by (auto simp: registry_ok_def sign_up_def Let_def dom_update
           split: option.splits list.splits)

lemma registry_ok_login: "registry_ok app \<Longrightarrow> registry_ok (snd (login app n pw))"
  by (auto simp: registry_ok_def login_def Let_def split: option.splits)

lemma registry_ok_logout: "registry_ok app \<Longrightarrow> registry_ok (logout app)"
  by (simp add: registry_ok_def logout_def)

text \<open>
  C7. For an account of the registry, login with its number and exactly its
  password shows the welcome message and makes that account the current session,
  changing nothing else. Login with its number and anything else as the password
  (another string, or a cancelled prompt) shows "Incorrect password" and leaves the
  whole state as it was: the session, the registry and every account object.
\<close>

theorem login_checks_password:
  assumes "registry_ok app" and "map_of (accounts app) no = Some a"
  shows "login app (Some no) (Some (password (objects app a)))
           = (showinfo ''Success'' (''Welcome '' @ name (objects app a) @ ''!''),
              app\<lparr>current := Some a\<rparr>)
       \<and> (pw \<noteq> Some (password (objects app a)) \<longrightarrow>
            login app (Some no) pw = (showerror ''Error'' ''Incorrect password'', app))"
proof -
  from assms(2) have mem: "(no, a) \<in> set (accounts app)"
    by (rule map_of_SomeD)
  then have nonempty: "accounts app \<noteq> []"
    by auto
  from mem assms(1) have "no \<noteq> []"
    by (force simp: registry_ok_def)
  with nonempty assms(2) show ?thesis
    by (simp add: login_def Let_def)
qed

theorem login_checks_password_witness:
  "registry_ok scenario_app \<and> map_of (accounts scenario_app) ''002'' = Some 1
   \<and> login scenario_app (Some ''002'') (Some ''p2'')
       = (showinfo ''Success'' ''Welcome Bob!'', scenario_app\<lparr>current := Some 1\<rparr>)
   \<and> login scenario_app (Some ''002'') (Some ''p1'')
       = (showerror ''Error'' ''Incorrect password'', scenario_app)
   \<and> login scenario_app (Some ''002'') None
       = (showerror ''Error'' ''Incorrect password'', scenario_app)"
proof -
  have ok: "registry_ok scenario_app"
    by (simp add: registry_ok_def scenario_app_def)
  have reg: "map_of (accounts scenario_app) ''002'' = Some 1"
    by (simp add: scenario_app_def)
  have obj: "objects scenario_app (Suc 0) = BankAccount_init ''002'' ''Bob'' ''p2'' ''Business'' 500"
    by (simp add: scenario_app_def scenario_apply)
  from login_checks_password [OF ok reg, of "Some ''p1''"]
       login_checks_password [OF ok reg, of None] ok reg
  show ?thesis
    by (simp add: obj BankAccount_init_def)
qed

subsection \<open>Top-up and withdrawal\<close>

text \<open>
  C8. A top-up and a withdrawal of the same amount on the same account raise the
  same exception or both return normally, and leave the same balance in every
  account. When they raise, both leave the store as it was. When they return, each
  leaves the store with the caller's balance lowered by the amount and one record
  appended to the caller's history; the two stores differ in the text of that record
  only.
\<close>

theorem mobile_topup_as_withdraw:
  "fst (mobile_topup A x n h) = fst (withdraw A x h)
   \<and> (\<forall>c. balance (snd (mobile_topup A x n h) c) = balance (snd (withdraw A x h) c))
   \<and> (fst (withdraw A x h) \<noteq> None \<longrightarrow> snd (mobile_topup A x n h) = snd (withdraw A x h))
   \<and> (fst (withdraw A x h) = None \<longrightarrow>
        snd (withdraw A x h)
          = append_transaction A (''Withdrew Nu.'' @ str_int x)
              (set_balance A (balance (h A) - x) h)
        \<and> snd (mobile_topup A x n h)
          = append_transaction A (''Mobile top-up Nu.'' @ str_int x @ '' to '' @ n)
              (set_balance A (balance (h A) - x) h))"
  by (simp add: mobile_topup_def withdraw_def store_simps)

theorem mobile_topup_as_withdraw_witness:
  "fst (mobile_topup 0 100 ''17123456'' scenario) = None
   \<and> fst (withdraw 0 100 scenario) = None
   \<and> balance (snd (mobile_topup 0 100 ''17123456'' scenario) 0) = 900
   \<and> balance (snd (withdraw 0 100 scenario) 0) = 900
   \<and> transactions (snd (mobile_topup 0 100 ''17123456'' scenario) 0) = [''Mobile top-up Nu.100 to 17123456'']
   \<and> transactions (snd (withdraw 0 100 scenario) 0) = [''Withdrew Nu.100'']
   \<and> fst (mobile_topup 1 600 ''17123456'' scenario) = Some (InsufficientFundsError ''Not enough balance'')
   \<and> fst (withdraw 1 600 scenario) = Some (InsufficientFundsError ''Not enough balance'')
   \<and> snd (mobile_topup 1 600 ''17123456'' scenario) = snd (withdraw 1 600 scenario)"
  using mobile_topup_as_withdraw [of 0 100 "''17123456''" scenario]
        mobile_topup_as_withdraw [of 1 600 "''17123456''" scenario]
  by (simp add: withdraw_def store_simps scenario_apply BankAccount_init_def str_int_100)

subsection \<open>Deposits in either order\<close>

text \<open>
  An account holds 0.1 and receives the deposits 0.1 and 1.1, all floats. Every
  deposit is accepted. With 0.1 first the balance ends at 1.3; with 1.1 first it ends
  at 1.3000000000000003. This holds whatever text the f-strings give the amounts.
\<close>

theorem deposit_float_order_matters:
  "\<forall>format_float.
     fst (deposit_float format_float 0 (to_double (1 / 10)) float_saver) = None
   \<and> fst (deposit_float format_float 0 (to_double (11 / 10))
            (snd (deposit_float format_float 0 (to_double (1 / 10)) float_saver))) = None
   \<and> fst (deposit_float format_float 0 (to_double (11 / 10)) float_saver) = None
   \<and> fst (deposit_float format_float 0 (to_double (1 / 10))
            (snd (deposit_float format_float 0 (to_double (11 / 10)) float_saver))) = None
   \<and> balance (snd (deposit_float format_float 0 (to_double (11 / 10))
                 (snd (deposit_float format_float 0 (to_double (1 / 10)) float_saver))) 0)
       = Finite (5854679515581645 / 4503599627370496)
   \<and> balance (snd (deposit_float format_float 0 (to_double (1 / 10))
                 (snd (deposit_float format_float 0 (to_double (11 / 10)) float_saver))) 0)
       = Finite (5854679515581646 / 4503599627370496)"
  by (simp add: deposit_float_def store_simps float_saver_apply BankAccount_init_def
                double_literals to_double_finite round_eval)

text \<open>
  C9, as the code has it. For positive amounts \<open>a\<close> and \<open>b\<close>, depositing \<open>a\<close> and then
  \<open>b\<close> and depositing \<open>b\<close> and then \<open>a\<close> both return normally. When the amounts and
  the balance are integers, the two orders leave the same balance. When they are
  floats, the first order leaves the float sum of \<open>b\<close> and the float sum of the
  balance and \<open>a\<close>, the second order the float sum of \<open>a\<close> and the float sum of the
  balance and \<open>b\<close>: each sum is rounded.
\<close>

theorem deposit_commutes:
  "(0 < a \<and> 0 < b \<longrightarrow>
      fst (deposit A a h) = None \<and> fst (deposit A b (snd (deposit A a h))) = None
      \<and> fst (deposit A b h) = None \<and> fst (deposit A a (snd (deposit A b h))) = None
      \<and> balance (snd (deposit A b (snd (deposit A a h))) A)
          = balance (snd (deposit A a (snd (deposit A b h))) A))
   \<and> (float_gt c (Finite 0) \<and> float_gt d (Finite 0) \<longrightarrow>
      fst (deposit_float format_float A c g) = None
      \<and> fst (deposit_float format_float A d (snd (deposit_float format_float A c g))) = None
      \<and> fst (deposit_float format_float A d g) = None
      \<and> fst (deposit_float format_float A c (snd (deposit_float format_float A d g))) = None
      \<and> balance (snd (deposit_float format_float A d (snd (deposit_float format_float A c g))) A)
          = float_add (float_add (balance (g A)) c) d
      \<and> balance (snd (deposit_float format_float A c (snd (deposit_float format_float A d g))) A)
          = float_add (float_add (balance (g A)) d) c)"
  by (simp add: deposit_def deposit_float_def store_simps float_gt_not_le)

theorem deposit_commutes_witness:
  "\<forall>format_float.
     (0::int) < 500 \<and> (0::int) < 70
   \<and> balance (snd (deposit 0 70 (snd (deposit 0 500 scenario))) 0) = 1570
   \<and> balance (snd (deposit 0 500 (snd (deposit 0 70 scenario))) 0) = 1570
   \<and> float_gt (to_double (1 / 10)) (Finite 0) \<and> float_gt (to_double (11 / 10)) (Finite 0)
   \<and> balance (snd (deposit_float format_float 0 (to_double (11 / 10))
                 (snd (deposit_float format_float 0 (to_double (1 / 10)) float_saver))) 0)
       = Finite (5854679515581645 / 4503599627370496)
   \<and> balance (snd (deposit_float format_float 0 (to_double (1 / 10))
                 (snd (deposit_float format_float 0 (to_double (11 / 10)) float_saver))) 0)
       = Finite (5854679515581646 / 4503599627370496)"
proof
  fix format_float :: "pyfloat \<Rightarrow> string"
  from deposit_commutes
         [of 500 70 0 scenario "to_double (1 / 10)" "to_double (11 / 10)" format_float
             float_saver]
  show "(0::int) < 500 \<and> (0::int) < 70
   \<and> balance (snd (deposit 0 70 (snd (deposit 0 500 scenario))) 0) = 1570
   \<and> balance (snd (deposit 0 500 (snd (deposit 0 70 scenario))) 0) = 1570
   \<and> float_gt (to_double (1 / 10)) (Finite 0) \<and> float_gt (to_double (11 / 10)) (Finite 0)
   \<and> balance (snd (deposit_float format_float 0 (to_double (11 / 10))
                 (snd (deposit_float format_float 0 (to_double (1 / 10)) float_saver))) 0)
       = Finite (5854679515581645 / 4503599627370496)
   \<and> balance (snd (deposit_float format_float 0 (to_double (1 / 10))
                 (snd (deposit_float format_float 0 (to_double (11 / 10)) float_saver))) 0)
       = Finite (5854679515581646 / 4503599627370496)"
    by (simp add: deposit_def store_simps scenario_apply float_saver_apply
                  BankAccount_init_def double_literals to_double_finite round_eval)
qed

subsection \<open>The guard against a transfer to oneself compares identity\<close>

text \<open>
  C10. For two distinct account objects that carry the same account number, a
  transfer of a positive amount within the sender's balance returns normally and
  moves the amount: the guard compares the objects, not their numbers.
\<close>

theorem transfer_guard_is_identity:
  assumes "A \<noteq> B" and "acc_no (h A) = acc_no (h B)" and "0 < x" and "x \<le> balance (h A)"
  shows "fst (transfer A x B h) = None
       \<and> balance (snd (transfer A x B h) A) = balance (h A) - x
       \<and> balance (snd (transfer A x B h) B) = balance (h B) + x"
  using assms by (simp add: transfer_def store_simps)

theorem transfer_guard_is_identity_witness:
  "(0::addr) \<noteq> 1 \<and> acc_no (twins 0) = acc_no (twins 1) \<and> (0::int) < 200
   \<and> 200 \<le> balance (twins 0)
   \<and> fst (transfer 0 200 1 twins) = None
   \<and> balance (snd (transfer 0 200 1 twins) 0) = 800
   \<and> balance (snd (transfer 0 200 1 twins) 1) = 700"
  using transfer_guard_is_identity [of 0 1 twins 200]
  by (simp add: twins_def BankAccount_init_def)

end
